theory Spec2Isabelle
  imports Complex_Main
begin

section \<open>Numbers\<close>

text \<open>
  The engine computes with IEEE doubles through numpy. Here a finite double is idealised
  as a real number (no rounding, no overflow, no signed zero), and the three values that
  numpy produces instead of raising (division by zero, square root and logarithm outside
  their domain give \<open>inf\<close>, \<open>-inf\<close> or \<open>nan\<close> with a warning only) are kept as values
  of their own, with the arithmetic and the comparisons IEEE gives them.
\<close>

datatype pyfloat = Fin real | PInf | MInf | NaN

fun fneg :: "pyfloat \<Rightarrow> pyfloat" where
  "fneg (Fin a) = Fin (- a)"
| "fneg PInf = MInf"
| "fneg MInf = PInf"
| "fneg NaN = NaN"

fun fadd :: "pyfloat \<Rightarrow> pyfloat \<Rightarrow> pyfloat" where
  "fadd NaN _ = NaN"
| "fadd _ NaN = NaN"
| "fadd (Fin a) (Fin b) = Fin (a + b)"
| "fadd PInf MInf = NaN"
| "fadd MInf PInf = NaN"
| "fadd PInf _ = PInf"
| "fadd _ PInf = PInf"
| "fadd MInf _ = MInf"
| "fadd _ MInf = MInf"

definition fsub :: "pyfloat \<Rightarrow> pyfloat \<Rightarrow> pyfloat" where
  "fsub a b = fadd a (fneg b)"

fun fmul :: "pyfloat \<Rightarrow> pyfloat \<Rightarrow> pyfloat" where
  "fmul NaN _ = NaN"
| "fmul _ NaN = NaN"
| "fmul (Fin a) (Fin b) = Fin (a * b)"
| "fmul PInf (Fin b) = (if b = 0 then NaN else if 0 < b then PInf else MInf)"
| "fmul MInf (Fin b) = (if b = 0 then NaN else if 0 < b then MInf else PInf)"
| "fmul (Fin a) PInf = (if a = 0 then NaN else if 0 < a then PInf else MInf)"
| "fmul (Fin a) MInf = (if a = 0 then NaN else if 0 < a then MInf else PInf)"
| "fmul PInf PInf = PInf"
| "fmul MInf MInf = PInf"
| "fmul PInf MInf = MInf"
| "fmul MInf PInf = MInf"

fun fdiv :: "pyfloat \<Rightarrow> pyfloat \<Rightarrow> pyfloat" where
  "fdiv NaN _ = NaN"
| "fdiv _ NaN = NaN"
| "fdiv (Fin a) (Fin b) =
     (if b = 0 then (if a = 0 then NaN else if 0 < a then PInf else MInf)
      else Fin (a / b))"
| "fdiv (Fin a) PInf = Fin 0"
| "fdiv (Fin a) MInf = Fin 0"
| "fdiv PInf (Fin b) = (if 0 \<le> b then PInf else MInf)"
| "fdiv MInf (Fin b) = (if 0 \<le> b then MInf else PInf)"
| "fdiv PInf PInf = NaN"
| "fdiv PInf MInf = NaN"
| "fdiv MInf PInf = NaN"
| "fdiv MInf MInf = NaN"

fun fsqrt :: "pyfloat \<Rightarrow> pyfloat" where
  "fsqrt (Fin a) = (if a < 0 then NaN else Fin (sqrt a))"
| "fsqrt PInf = PInf"
| "fsqrt MInf = NaN"
| "fsqrt NaN = NaN"

fun flog :: "pyfloat \<Rightarrow> pyfloat" where
  "flog (Fin a) = (if a < 0 then NaN else if a = 0 then MInf else Fin (ln a))"
| "flog PInf = PInf"
| "flog MInf = NaN"
| "flog NaN = NaN"

fun fabs :: "pyfloat \<Rightarrow> pyfloat" where
  "fabs (Fin a) = Fin \<bar>a\<bar>"
| "fabs PInf = PInf"
| "fabs MInf = PInf"
| "fabs NaN = NaN"

fun flt :: "pyfloat \<Rightarrow> pyfloat \<Rightarrow> bool" where
  "flt NaN _ = False"
| "flt _ NaN = False"
| "flt (Fin a) (Fin b) = (a < b)"
| "flt PInf _ = False"
| "flt _ MInf = False"
| "flt MInf _ = True"
| "flt _ PInf = True"

definition fgt :: "pyfloat \<Rightarrow> pyfloat \<Rightarrow> bool" where
  "fgt a b = flt b a"

fun feq :: "pyfloat \<Rightarrow> pyfloat \<Rightarrow> bool" where
  "feq NaN _ = False"
| "feq _ NaN = False"
| "feq a b = (a = b)"

text \<open>\<open>np.clip(x, -1, 1)\<close>, which \<open>np.corrcoef\<close> applies to its result.\<close>

fun fclip :: "pyfloat \<Rightarrow> pyfloat" where
  "fclip (Fin a) = Fin (min (max a (- 1)) 1)"
| "fclip PInf = Fin 1"
| "fclip MInf = Fin (- 1)"
| "fclip NaN = NaN"

definition fsum :: "pyfloat list \<Rightarrow> pyfloat" where
  "fsum xs = foldl fadd (Fin 0) xs"

text \<open>\<open>np.mean\<close>: the sum divided by the number of elements (\<open>nan\<close> on an empty array).\<close>

definition np_mean :: "pyfloat list \<Rightarrow> pyfloat" where
  "np_mean xs = fdiv (fsum xs) (Fin (real (length xs)))"

text \<open>\<open>np.var\<close> and \<open>np.std\<close> with the default \<open>ddof=0\<close>: the mean of the squared
  deviations from the mean, and its square root.\<close>

definition np_var :: "pyfloat list \<Rightarrow> pyfloat" where
  "np_var xs = (let m = np_mean xs in np_mean (map (\<lambda>x. fmul (fsub x m) (fsub x m)) xs))"

definition np_std :: "pyfloat list \<Rightarrow> pyfloat" where
  "np_std xs = fsqrt (np_var xs)"

text \<open>\<open>np.diff\<close> of a one-dimensional array: one element fewer, none for an array of
  length 0 or 1.\<close>

fun np_diff :: "pyfloat list \<Rightarrow> pyfloat list" where
  "np_diff (a # b # xs) = fsub b a # np_diff (b # xs)"
| "np_diff _ = []"

section \<open>Exceptions\<close>

definition digit_char :: "nat \<Rightarrow> char" where
  "digit_char n = ''0123456789'' ! n"

fun show_nat :: "nat \<Rightarrow> string" where
  "show_nat n = (if n < 10 then [digit_char n] else show_nat (n div 10) @ [digit_char (n mod 10)])"

declare show_nat.simps [simp del]

text \<open>
  The exceptions the engine can raise, each with the data its message is built from.
  \<open>External\<close> is an exception raised inside the hidden-Markov or the ensemble library,
  with the message that library gave it.
\<close>

datatype exc =
    JSONDecodeError string nat nat nat
  | KeyError string
  | IndexError_last nat
  | ValueError_concat nat nat nat nat
  | TypeError_float_subscript
  | LinAlgError_singular
  | External string

fun str_exc :: "exc \<Rightarrow> string" where
  "str_exc (JSONDecodeError msg lineno colno pos) =
     msg @ '': line '' @ show_nat lineno @ '' column '' @ show_nat colno
         @ '' (char '' @ show_nat pos @ '')''"
| "str_exc (KeyError k) = [CHR 0x27] @ k @ [CHR 0x27]"
| "str_exc (IndexError_last n) =
     ''index -1 is out of bounds for axis 0 with size '' @ show_nat n"
| "str_exc (ValueError_concat d i n0 ni) =
     ''all the input array dimensions except for the concatenation axis must match exactly, ''
     @ ''but along dimension '' @ show_nat d @ '', the array at index 0 has size '' @ show_nat n0
     @ '' and the array at index '' @ show_nat i @ '' has size '' @ show_nat ni"
| "str_exc TypeError_float_subscript = [CHR 0x27] @ ''float'' @ [CHR 0x27] @ '' object is not subscriptable''"
| "str_exc LinAlgError_singular = ''Singular matrix''"
| "str_exc (External msg) = msg"

section \<open>The State Estimator\<close>

text \<open>
  \<open>filterpy.kalman.KalmanFilter(dim_x=2, dim_z=1)\<close> as \<open>initialize_kalman_filter\<close>
  configures it: state \<open>x\<close> and covariance \<open>P\<close> from the caller, \<open>F\<close> left at the
  identity, \<open>H = [[1, 0]]\<close>, \<open>R = 0.1\<close>, \<open>Q = 0.01 * I\<close>. Only \<open>x\<close> and \<open>P\<close> ever
  change, so they are the fields of the record.
\<close>

record kalman =
  kx0 :: real
  kx1 :: real
  kP00 :: real
  kP01 :: real
  kP10 :: real
  kP11 :: real

definition kf_R :: real where
  "kf_R = 1 / 10"

definition kf_Q :: real where
  "kf_Q = 1 / 100"

text \<open>\<open>predict()\<close>: \<open>x = F x\<close>, \<open>P = F P F\<^sup>T + Q\<close> with \<open>F = I\<close>.\<close>

definition kf_predict :: "kalman \<Rightarrow> kalman" where
  "kf_predict k = k\<lparr>kP00 := kP00 k + kf_Q, kP11 := kP11 k + kf_Q\<rparr>"

text \<open>
  \<open>update(z)\<close>: \<open>y = z - H x\<close>, \<open>S = H P H\<^sup>T + R\<close>, \<open>K = P H\<^sup>T S\<^sup>-\<^sup>1\<close>, \<open>x = x + K y\<close>,
  \<open>P = (I - K H) P (I - K H)\<^sup>T + K R K\<^sup>T\<close>. \<open>numpy.linalg.inv\<close> raises
  \<open>LinAlgError\<close> on the singular 1x1 matrix \<open>S = 0\<close>.
\<close>

definition kf_update :: "kalman \<Rightarrow> real \<Rightarrow> exc + kalman" where
  "kf_update k z =
     (let y = z - kx0 k;
          S = kP00 k + kf_R
      in if S = 0 then Inl LinAlgError_singular
         else
           let K0 = kP00 k / S;
               K1 = kP10 k / S;
               A00 = (1 - K0) * kP00 k;
               A01 = (1 - K0) * kP01 k;
               A10 = - K1 * kP00 k + kP10 k;
               A11 = - K1 * kP01 k + kP11 k
           in Inr \<lparr>kx0 = kx0 k + K0 * y,
                   kx1 = kx1 k + K1 * y,
                   kP00 = A00 * (1 - K0) + K0 * kf_R * K0,
                   kP01 = A00 * (- K1) + A01 + K0 * kf_R * K1,
                   kP10 = A10 * (1 - K0) + K1 * kf_R * K0,
                   kP11 = A10 * (- K1) + A11 + K1 * kf_R * K1\<rparr>)"

section \<open>Arrays\<close>

text \<open>\<open>np.column_stack\<close> of three one-dimensional arrays: each becomes a column, and
  \<open>concatenate\<close> raises \<open>ValueError\<close> naming the first array whose length differs from
  that of the first one.\<close>

definition np_column_stack3 ::
  "pyfloat list \<Rightarrow> pyfloat list \<Rightarrow> pyfloat list \<Rightarrow> exc + pyfloat list list" where
  "np_column_stack3 a b c =
     (if length b \<noteq> length a then Inl (ValueError_concat 0 1 (length a) (length b))
      else if length c \<noteq> length a then Inl (ValueError_concat 0 2 (length a) (length c))
      else Inr (map (\<lambda>(x, y, z). [x, y, z]) (zip a (zip b c))))"

text \<open>The slice \<open>xs[-20:]\<close>: the last 20 elements, or all of them when there are fewer.\<close>

definition last20 :: "'a list \<Rightarrow> 'a list" where
  "last20 xs = drop (length xs - 20) xs"

type_synonym mat2 = "(pyfloat \<times> pyfloat) \<times> (pyfloat \<times> pyfloat)"

text \<open>
  \<open>np.cov(x, y)\<close> with the default \<open>ddof=1\<close>: the two series are stacked as the rows of
  one matrix (\<open>ValueError\<close> when their lengths differ), each row is centred on its
  mean, and the products are scaled by \<open>1 / fact\<close>, \<open>fact = n - 1\<close> (set to 0 when
  it is not positive).
\<close>

definition cov_entry :: "pyfloat list \<Rightarrow> pyfloat list \<Rightarrow> pyfloat" where
  "cov_entry xs ys =
     (let mx = np_mean xs; my = np_mean ys;
          fact = max (real (length xs) - 1) 0
      in fmul (fsum (map (\<lambda>(x, y). fmul (fsub x mx) (fsub y my)) (zip xs ys)))
              (fdiv (Fin 1) (Fin fact)))"

definition np_cov :: "pyfloat list \<Rightarrow> pyfloat list \<Rightarrow> exc + mat2" where
  "np_cov xs ys =
     (if length ys \<noteq> length xs then Inl (ValueError_concat 1 1 (length xs) (length ys))
      else Inr ((cov_entry xs xs, cov_entry xs ys), (cov_entry ys xs, cov_entry ys ys)))"

text \<open>\<open>np.corrcoef(x, y)\<close>: the covariance matrix, row \<open>i\<close> and then column \<open>j\<close>
  divided by the square root of the diagonal, clipped to \<open>[-1, 1]\<close>.\<close>

definition np_corrcoef :: "pyfloat list \<Rightarrow> pyfloat list \<Rightarrow> exc + mat2" where
  "np_corrcoef xs ys =
     (case np_cov xs ys of
        Inl e \<Rightarrow> Inl e
      | Inr ((c00, c01), (c10, c11)) \<Rightarrow>
          let s0 = fsqrt c00; s1 = fsqrt c11
          in Inr ((fclip (fdiv (fdiv c00 s0) s0), fclip (fdiv (fdiv c01 s0) s1)),
                  (fclip (fdiv (fdiv c10 s1) s0), fclip (fdiv (fdiv c11 s1) s1))))"

section \<open>The engine\<close>

text \<open>
  The libraries the engine calls but does not contain: the hidden-Markov model
  (\<open>hmmlearn\<close>) and the random forest (\<open>scikit-learn\<close>). \<open>hmm_new\<close> is the unfitted
  \<open>GaussianHMM(n_components=2, covariance_type="full")\<close>; \<open>hmm_fit\<close> returns the model
  as \<open>fit\<close> leaves it and the exception it raised, if any; \<open>hmm_predict\<close> returns the
  label sequence; \<open>rf_predict_proba\<close> returns \<open>predict_proba(...)[0][1]\<close> for the
  flattened feature row.
\<close>

record ('h, 'rf) externals =
  hmm_new :: 'h
  hmm_fit :: "'h \<Rightarrow> pyfloat list \<Rightarrow> 'h \<times> exc option"
  hmm_predict :: "'h \<Rightarrow> pyfloat list \<Rightarrow> exc + nat list"
  rf_predict_proba :: "'rf \<Rightarrow> pyfloat list \<Rightarrow> exc + pyfloat"

text \<open>
  The fields of \<open>QuantBackend\<close>. \<open>rf_classifier\<close> is \<open>None\<close> while the classifier has
  no \<open>classes_\<close> attribute (it has never been fitted). \<open>kmeans\<close> and \<open>price_history\<close>
  are set by the constructor and never read or written again; they are left out.
\<close>

record ('h, 'rf, 'p) quant_backend =
  kalman_filter :: "kalman option"
  hmm_model :: "'h option"
  pca :: 'p
  rf_classifier :: "'rf option"
  regime_history :: "nat list"
  correlation_matrix :: "mat2 option"

definition init :: "'p \<Rightarrow> ('h, 'rf, 'p) quant_backend" where
  "init p = \<lparr>kalman_filter = None, hmm_model = None, pca = p, rf_classifier = None,
             regime_history = [], correlation_matrix = None\<rparr>"

definition initialize_kalman_filter ::
  "('h, 'rf, 'p) quant_backend \<Rightarrow> real \<times> real \<Rightarrow> (real \<times> real) \<times> (real \<times> real)
     \<Rightarrow> ('h, 'rf, 'p) quant_backend" where
  "initialize_kalman_filter st initial_state initial_covariance =
     (case (initial_state, initial_covariance) of
        ((a, b), ((p00, p01), (p10, p11))) \<Rightarrow>
          st\<lparr>kalman_filter :=
               Some \<lparr>kx0 = a, kx1 = b, kP00 = p00, kP01 = p01, kP10 = p10, kP11 = p11\<rparr>\<rparr>)"

text \<open>
  \<open>calculate_zscore\<close>: \<open>predict()\<close>, \<open>update(spread)\<close>, then the level \<open>x[0]\<close> and the
  variance \<open>P[0, 0]\<close> are read from the filter. When \<open>update\<close> raises, the filter keeps
  what \<open>predict\<close> wrote.
\<close>

definition calculate_zscore ::
  "('h, 'rf, 'p) quant_backend \<Rightarrow> real \<Rightarrow> (exc + pyfloat) \<times> ('h, 'rf, 'p) quant_backend" where
  "calculate_zscore st spread =
     (case kalman_filter st of
        None \<Rightarrow> (Inr (Fin 0), st)
      | Some k \<Rightarrow>
          let kp = kf_predict k
          in (case kf_update kp spread of
                Inl e \<Rightarrow> (Inl e, st\<lparr>kalman_filter := Some kp\<rparr>)
              | Inr ku \<Rightarrow>
                  let st' = st\<lparr>kalman_filter := Some ku\<rparr>;
                      mean = Fin (kx0 ku);
                      std = fsqrt (Fin (kP00 ku))
                  in if feq std (Fin 0) then (Inr (Fin 0), st')
                     else (Inr (fdiv (fsub (Fin spread) mean) std), st')))"

definition detect_regime ::
  "('h, 'rf) externals \<Rightarrow> ('h, 'rf, 'p) quant_backend \<Rightarrow> real list
     \<Rightarrow> (exc + bool) \<times> ('h, 'rf, 'p) quant_backend" where
  "detect_regime ext st price_data =
     (if length (regime_history st) < 100 then (Inr False, st)
      else
        let returns = np_diff (map (\<lambda>p. flog (Fin p)) price_data)
        in (case (case hmm_model st of
                    None \<Rightarrow> hmm_fit ext (hmm_new ext) returns
                  | Some h \<Rightarrow> (h, None)) of
              (h, Some e) \<Rightarrow> (Inl e, st\<lparr>hmm_model := Some h\<rparr>)
            | (h, None) \<Rightarrow>
                (case hmm_predict ext h returns of
                   Inl e \<Rightarrow> (Inl e, st\<lparr>hmm_model := Some h\<rparr>)
                 | Inr regime \<Rightarrow>
                     if regime = [] then (Inl (IndexError_last 0), st\<lparr>hmm_model := Some h\<rparr>)
                     else
                       let hist = regime_history st @ [last regime];
                           st' = st\<lparr>hmm_model := Some h, regime_history := hist\<rparr>
                       in if 10 \<le> length hist
                          then (Inr (length (remdups (drop (length hist - 10) hist)) = 1), st')
                          else (Inr False, st'))))"

definition calculate_ml_probability ::
  "('h, 'rf) externals \<Rightarrow> ('h, 'rf, 'p) quant_backend \<Rightarrow> pyfloat list list \<Rightarrow> exc + pyfloat" where
  "calculate_ml_probability ext st features =
     (case rf_classifier st of
        None \<Rightarrow> Inr (Fin (1 / 2))
      | Some rf \<Rightarrow> rf_predict_proba ext rf (concat features))"

text \<open>What \<open>calculate_hedge_ratio\<close> returns: the bare float of its guard, or the
  dictionary with \<open>correlation\<close>, \<open>beta\<close> and \<open>hedge_ratio\<close>.\<close>

datatype hedge_result = HFloat pyfloat | HDict pyfloat pyfloat pyfloat

definition mat_scale :: "real \<Rightarrow> mat2 \<Rightarrow> mat2" where
  "mat_scale c m =
     (case m of ((a, b), (d, e)) \<Rightarrow>
        ((fmul (Fin c) a, fmul (Fin c) b), (fmul (Fin c) d, fmul (Fin c) e)))"

definition mat_add :: "mat2 \<Rightarrow> mat2 \<Rightarrow> mat2" where
  "mat_add m n =
     (case (m, n) of (((a, b), (d, e)), ((a', b'), (d', e'))) \<Rightarrow>
        ((fadd a a', fadd b b'), (fadd d d', fadd e e')))"

definition calculate_hedge_ratio ::
  "('h, 'rf, 'p) quant_backend \<Rightarrow> real list \<Rightarrow> real list
     \<Rightarrow> (exc + hedge_result) \<times> ('h, 'rf, 'p) quant_backend" where
  "calculate_hedge_ratio st pair1 pair2 =
     (if length pair1 < 2 \<or> length pair2 < 2 then (Inr (HFloat (Fin 0)), st)
      else
        let p1 = map Fin pair1; p2 = map Fin pair2
        in (case np_corrcoef p1 p2 of
              Inl e \<Rightarrow> (Inl e, st)
            | Inr ((r00, correlation), r1) \<Rightarrow>
                (case np_cov p1 p2 of
                   Inl e \<Rightarrow> (Inl e, st)
                 | Inr ((c00, c01), c1) \<Rightarrow>
                     let beta = fdiv c01 (np_var p2);
                         new = ((Fin 1, correlation), (correlation, Fin 1));
                         st' = st\<lparr>correlation_matrix :=
                                    (case correlation_matrix st of
                                       None \<Rightarrow> Some new
                                     | Some old \<Rightarrow>
                                         Some (mat_add (mat_scale (95 / 100) old)
                                                       (mat_scale (5 / 100) new)))\<rparr>
                     in (Inr (HDict correlation beta
                                (fmul beta (fdiv (np_std p1) (np_std p2)))), st'))))"

definition calculate_optimal_stop :: "real list \<Rightarrow> bool" where
  "calculate_optimal_stop position_data =
     (if length position_data < 2 then False
      else
        let returns = np_diff (map (\<lambda>p. flog (Fin p)) position_data);
            volatility = np_std returns;
            expected_return = np_mean returns;
            risk_aversion = Fin 2;
            stop_condition =
              fsub expected_return
                   (fmul (fmul (Fin (1 / 2)) risk_aversion) (fmul volatility volatility))
        in flt stop_condition (Fin 0))"

section \<open>Requests and responses\<close>

text \<open>
  The Signal Bundle, with the keys of the response dictionary. \<open>json.dumps\<close> writes it
  out key by key; the response is kept structured here.
\<close>

record signal_bundle =
  zScore :: pyfloat
  isDirectionalRegime :: bool
  mlProbability :: pyfloat
  kalmanSignal :: bool
  hedgeSignal :: bool
  correlation :: pyfloat
  optimalStopSignal :: bool

datatype response = Bundle signal_bundle | ErrorResponse string

text \<open>
  A request is what \<open>json.loads\<close> makes of the text received: it raises
  \<open>JSONDecodeError(msg, doc, pos)\<close> (with the line and column of \<open>pos\<close>), or it yields
  a document. The documents of this type are those of the wire format: a JSON object in
  which each of \<open>prices\<close>, \<open>volumes\<close>, \<open>pair1_prices\<close> and \<open>pair2_prices\<close> is absent
  or a one-dimensional array of numbers. The other values \<open>json.loads\<close> can yield are
  not in the type: a document that is not an object, and fields that hold scalars, nested
  arrays or entries that are not numbers. What numpy makes of those is not modelled; with
  nested arrays of numbers the stacking of the feature matrix can succeed, so nothing
  said here about \<open>process_mt5_data\<close> extends to them.
\<close>

datatype request = Malformed string nat nat nat | Document "string \<rightharpoonup> real list"

text \<open>The dictionary literal of \<open>process_mt5_data\<close>. Subscripting the bare float that
  \<open>calculate_hedge_ratio\<close> returns for short series raises \<open>TypeError\<close>.\<close>

definition assemble_response ::
  "pyfloat \<Rightarrow> bool \<Rightarrow> pyfloat \<Rightarrow> hedge_result \<Rightarrow> bool \<Rightarrow> exc + signal_bundle" where
  "assemble_response zscore regime ml_prob hedge_data stop_signal =
     (case hedge_data of
        HFloat _ \<Rightarrow> Inl TypeError_float_subscript
      | HDict corr beta ratio \<Rightarrow>
          Inr \<lparr>zScore = zscore,
               isDirectionalRegime = regime,
               mlProbability = ml_prob,
               kalmanSignal = fgt (fabs zscore) (Fin 2),
               hedgeSignal = fgt corr (Fin (7 / 10)),
               correlation = corr,
               optimalStopSignal = stop_signal\<rparr>)"

text \<open>The body of the \<open>try\<close> block of \<open>process_mt5_data\<close>: the first exception ends it,
  and the engine keeps the state written so far.\<close>

definition process_body ::
  "('h, 'rf) externals \<Rightarrow> ('h, 'rf, 'p) quant_backend \<Rightarrow> request
     \<Rightarrow> (exc + signal_bundle) \<times> ('h, 'rf, 'p) quant_backend" where
  "process_body ext st req =
     (case req of
        Malformed msg lineno colno pos \<Rightarrow> (Inl (JSONDecodeError msg lineno colno pos), st)
      | Document data \<Rightarrow>
     (case data ''prices'' of
        None \<Rightarrow> (Inl (KeyError ''prices''), st)
      | Some prices \<Rightarrow>
     (case data ''volumes'' of
        None \<Rightarrow> (Inl (KeyError ''volumes''), st)
      | Some volumes \<Rightarrow>
     (if prices = [] then (Inl (IndexError_last 0), st)
      else
     (case calculate_zscore st (last prices) of
        (Inl e, st1) \<Rightarrow> (Inl e, st1)
      | (Inr zscore, st1) \<Rightarrow>
     (case detect_regime ext st1 prices of
        (Inl e, st2) \<Rightarrow> (Inl e, st2)
      | (Inr regime, st2) \<Rightarrow>
     (case np_column_stack3 (map Fin (last20 prices)) (map Fin (last20 volumes))
                            (np_diff (map Fin (last20 prices))) of
        Inl e \<Rightarrow> (Inl e, st2)
      | Inr features \<Rightarrow>
     (case calculate_ml_probability ext st2 features of
        Inl e \<Rightarrow> (Inl e, st2)
      | Inr ml_prob \<Rightarrow>
     (case calculate_hedge_ratio st2
             (case data ''pair1_prices'' of None \<Rightarrow> prices | Some p \<Rightarrow> p)
             (case data ''pair2_prices'' of None \<Rightarrow> prices | Some p \<Rightarrow> p) of
        (Inl e, st3) \<Rightarrow> (Inl e, st3)
      | (Inr hedge_data, st3) \<Rightarrow>
          (assemble_response zscore regime ml_prob hedge_data (calculate_optimal_stop prices),
           st3))))))))))"

definition process_mt5_data ::
  "('h, 'rf) externals \<Rightarrow> ('h, 'rf, 'p) quant_backend \<Rightarrow> request
     \<Rightarrow> response \<times> ('h, 'rf, 'p) quant_backend" where
  "process_mt5_data ext st req =
     (case process_body ext st req of
        (Inl e, st') \<Rightarrow> (ErrorResponse (str_exc e), st')
      | (Inr b, st') \<Rightarrow> (Bundle b, st'))"

section \<open>Reachable engine states\<close>

text \<open>
  The states an engine can be in: the constructor's, and what each method makes of a
  reachable state. \<open>calculate_ml_probability\<close>, \<open>calculate_optimal_stop\<close> and
  \<open>detect_cointegration\<close> write no field. \<open>calculate_pca_signals\<close> refits \<open>self.pca\<close>
  and writes nothing else, and the classifier is trained from outside the engine: both
  are covered by letting the field take any value.
\<close>

inductive reachable ::
  "('h, 'rf) externals \<Rightarrow> 'p \<Rightarrow> ('h, 'rf, 'p) quant_backend \<Rightarrow> bool"
  for ext :: "('h, 'rf) externals" and p0 :: 'p where
  r_init: "reachable ext p0 (init p0)"
| r_initialize_kalman_filter:
    "reachable ext p0 st \<Longrightarrow> reachable ext p0 (initialize_kalman_filter st x P)"
| r_calculate_zscore:
    "reachable ext p0 st \<Longrightarrow> reachable ext p0 (snd (calculate_zscore st spread))"
| r_detect_regime:
    "reachable ext p0 st \<Longrightarrow> reachable ext p0 (snd (detect_regime ext st price_data))"
| r_calculate_hedge_ratio:
    "reachable ext p0 st \<Longrightarrow> reachable ext p0 (snd (calculate_hedge_ratio st pair1 pair2))"
| r_process_mt5_data:
    "reachable ext p0 st \<Longrightarrow> reachable ext p0 (snd (process_mt5_data ext st req))"
| r_calculate_pca_signals:
    "reachable ext p0 st \<Longrightarrow> reachable ext p0 (st\<lparr>pca := p\<rparr>)"
| r_train_classifier:
    "reachable ext p0 st \<Longrightarrow> reachable ext p0 (st\<lparr>rf_classifier := rf\<rparr>)"

section \<open>Concrete inputs\<close>

text \<open>
  An engine as the constructor leaves it, libraries that raise nothing, and the request
  of the end-to-end scenario: the prices 1 to 30 with thirty volumes of 100.
\<close>

definition stub_externals :: "(unit, unit) externals" where
  "stub_externals = \<lparr>hmm_new = (), hmm_fit = (\<lambda>h r. (h, None)),
                      hmm_predict = (\<lambda>h r. Inr (map (\<lambda>_. 0) r)),
                      rf_predict_proba = (\<lambda>rf f. Inr (Fin (1 / 2)))\<rparr>"

definition fresh :: "(unit, unit, unit) quant_backend" where
  "fresh = init ()"

definition prices30 :: "real list" where
  "prices30 = [1, 2, 3, 4, 5, 6, 7, 8, 9, 10, 11, 12, 13, 14, 15, 16, 17, 18, 19, 20,
               21, 22, 23, 24, 25, 26, 27, 28, 29, 30]"

definition volumes30 :: "real list" where
  "volumes30 = replicate 30 100"

definition scenario :: request where
  "scenario = Document [''prices'' \<mapsto> prices30, ''volumes'' \<mapsto> volumes30]"

text \<open>Two more documents: one with no prices at all, one with two prices.\<close>

definition empty_data :: "string \<rightharpoonup> real list" where
  "empty_data = [''prices'' \<mapsto> [], ''volumes'' \<mapsto> []]"

definition short_data :: "string \<rightharpoonup> real list" where
  "short_data = [''prices'' \<mapsto> [5, 6], ''volumes'' \<mapsto> [1, 1]]"

text \<open>
  A State Estimator initialised at level 0 with variance 35.99, so that the predict step
  brings the variance to 36, and one initialised with variance -0.01, which the predict
  step brings to 0.
\<close>

definition kalman36 :: kalman where
  "kalman36 = \<lparr>kx0 = 0, kx1 = 0, kP00 = 3599 / 100, kP01 = 0, kP10 = 0, kP11 = 1\<rparr>"

definition filter36 :: "(unit, unit, unit) quant_backend" where
  "filter36 = initialize_kalman_filter fresh (0, 0) ((3599 / 100, 0), (0, 1))"

definition kalman_flat :: kalman where
  "kalman_flat = \<lparr>kx0 = 1, kx1 = 0, kP00 = - (1 / 100), kP01 = 0, kP10 = 0, kP11 = 1\<rparr>"

definition filter_flat :: "(unit, unit, unit) quant_backend" where
  "filter_flat = initialize_kalman_filter fresh (1, 0) ((- (1 / 100), 0), (0, 1))"

text \<open>Two short series, one rising and one falling.\<close>

definition up3 :: "real list" where
  "up3 = [1, 2, 3]"

definition down3 :: "real list" where
  "down3 = [3, 2, 1]"

section \<open>The z-score as the specification words it\<close>

text \<open>
  Following the specification's words, not the code: the z-score is
  \<open>(observation - predicted_level) / sqrt(predicted_variance)\<close>, level and variance
  taken after the predict step and before the update step, and 0.0 when the predicted
  variance is exactly zero.
\<close>

definition spec_zscore :: "kalman \<Rightarrow> real \<Rightarrow> pyfloat" where
  "spec_zscore k observation =
     (let predicted_level = kx0 (kf_predict k);
          predicted_variance = kP00 (kf_predict k)
      in if predicted_variance = 0 then Fin 0
         else fdiv (fsub (Fin observation) (Fin predicted_level))
                   (fsqrt (Fin predicted_variance)))"

section \<open>Basic facts\<close>

lemma length_np_diff: "length (np_diff xs) = length xs - 1"
  by (induction xs rule: np_diff.induct) auto

lemma last20_nonempty: "xs \<noteq> [] \<Longrightarrow> last20 xs \<noteq> []"
  by (cases xs) (auto simp: last20_def)

text \<open>The three columns of the feature matrix never have one length: the differences
  of a non-empty window are one fewer than the window.\<close>

lemma column_stack_fails:
  assumes "ps \<noteq> []"
  shows "\<exists>i n m. np_column_stack3 (map Fin (last20 ps)) vs (np_diff (map Fin (last20 ps)))
                   = Inl (ValueError_concat 0 i n m)"
proof -
  have "length (np_diff (map Fin (last20 ps))) \<noteq> length (map Fin (last20 ps))"
    using last20_nonempty [OF assms] by (cases "last20 ps") (simp_all add: length_np_diff)
  then show ?thesis by (simp add: np_column_stack3_def)
qed

lemma calculate_zscore_frame:
  "regime_history (snd (calculate_zscore st z)) = regime_history st"
  "hmm_model (snd (calculate_zscore st z)) = hmm_model st"
  by (auto simp: calculate_zscore_def Let_def split: option.splits sum.splits)

lemma calculate_hedge_ratio_frame:
  "regime_history (snd (calculate_hedge_ratio st a b)) = regime_history st"
  "hmm_model (snd (calculate_hedge_ratio st a b)) = hmm_model st"
  by (auto simp: calculate_hedge_ratio_def Let_def split: option.splits sum.splits prod.splits)

lemma detect_regime_cold:
  "length (regime_history st) < 100 \<Longrightarrow> detect_regime ext st price_data = (Inr False, st)"
  by (simp add: detect_regime_def)

lemma show_nat_digits:
  "show_nat 0 = ''0''" "show_nat 1 = ''1''" "show_nat (Suc 0) = ''1''" "show_nat 2 = ''2''"
  "show_nat (Suc (Suc 0)) = ''2''" "show_nat 19 = ''19''" "show_nat 20 = ''20''"
  by (simp_all add: show_nat.simps digit_char_def)

lemma stack_scenario:
  "np_column_stack3 (map Fin (last20 prices30)) (map Fin (last20 volumes30))
                    (np_diff (map Fin (last20 prices30))) = Inl (ValueError_concat 0 2 20 19)"
  by (simp add: np_column_stack3_def last20_def prices30_def volumes30_def)

section \<open>The end-to-end scenario\<close>

text \<open>
  C1. The claim is that a fresh engine answers the request with prices 1 to 30 and thirty
  volumes of 100 by a Signal Bundle with \<open>mlProbability = 0.5\<close>, a false regime flag,
  correlation 1.0 and a true hedge signal. The engine answers with the error descriptor
  instead: the feature matrix is stacked from 20 prices, 20 volumes and 19 differences, and
  \<open>np.column_stack\<close> raises before the classifier and the hedge estimator are called.
\<close>

theorem scenario_returns_error:
  "process_mt5_data stub_externals fresh scenario =
     (ErrorResponse
        (''all the input array dimensions except for the concatenation axis must match exactly, ''
         @ ''but along dimension 0, the array at index 0 has size 20 and the array at index 2 has size 19''),
      fresh)"
proof -
  have ne: "prices30 \<noteq> []" by (simp add: prices30_def)
  have z: "calculate_zscore fresh (last prices30) = (Inr (Fin 0), fresh)"
    by (simp add: calculate_zscore_def fresh_def init_def)
  have d: "detect_regime stub_externals fresh prices30 = (Inr False, fresh)"
    by (simp add: detect_regime_def fresh_def init_def)
  have "process_body stub_externals fresh scenario = (Inl (ValueError_concat 0 2 20 19), fresh)"
    by (simp add: process_body_def scenario_def ne z d stack_scenario)
  then show ?thesis by (simp add: process_mt5_data_def show_nat_digits)
qed

text \<open>
  The steps that the exception cuts off would have given the values of the scenario: an
  unfitted classifier answers 0.5 for any feature matrix, and the prices correlated with
  themselves give the correlation 1, above the threshold of the hedge signal.
\<close>

lemma mean_prices30: "np_mean (map Fin prices30) = Fin (31 / 2)"
  by (simp add: np_mean_def fsum_def prices30_def)

lemma cov_prices30: "cov_entry (map Fin prices30) (map Fin prices30) = Fin (155 / 2)"
  by (simp add: cov_entry_def mean_prices30 Let_def) (simp add: prices30_def fsum_def fsub_def)

lemma ratio_prices30: "155 / (2 * sqrt (155 / 2) * sqrt (155 / 2)) = (1 :: real)"
proof -
  have "sqrt (155 / 2) * sqrt (155 / 2) = (155 / 2 :: real)" by simp
  then have "2 * sqrt (155 / 2) * sqrt (155 / 2) = (155 :: real)"
    by (simp only: mult.assoc)
  then show ?thesis by simp
qed

lemma corr_prices30:
  "np_corrcoef (map Fin prices30) (map Fin prices30) = Inr ((Fin 1, Fin 1), (Fin 1, Fin 1))"
  by (simp add: np_corrcoef_def np_cov_def cov_prices30 Let_def ratio_prices30)

lemma scenario_remaining_steps:
  "calculate_ml_probability stub_externals fresh features = Inr (Fin (1 / 2))"
  "\<exists>be h st'. calculate_hedge_ratio fresh prices30 prices30 = (Inr (HDict (Fin 1) be h), st')"
  "fgt (Fin 1) (Fin (7 / 10))"
proof -
  show "calculate_ml_probability stub_externals fresh features = Inr (Fin (1 / 2))"
    by (simp add: calculate_ml_probability_def fresh_def init_def)
  show "\<exists>be h st'. calculate_hedge_ratio fresh prices30 prices30 = (Inr (HDict (Fin 1) be h), st')"
    by (simp add: calculate_hedge_ratio_def corr_prices30 np_cov_def Let_def)
       (simp add: prices30_def)
  show "fgt (Fin 1) (Fin (7 / 10))" by (simp add: fgt_def)
qed

section \<open>The Hedge Estimator on short series\<close>

text \<open>
  C4. The claim is that for series with fewer than 2 observations the Hedge Estimator
  returns the dictionary \<open>{correlation: 0, beta: 0, hedge_ratio: 0}\<close> and raises nothing.
  It raises nothing, but what it returns is the bare float \<open>0.0\<close>, not a dictionary,
  and the caller's \<open>hedge_data['correlation']\<close> raises \<open>TypeError\<close> on it.
\<close>

theorem short_series_returns_bare_float:
  "calculate_hedge_ratio fresh [1] [1] = (Inr (HFloat (Fin 0)), fresh) \<and>
   fst (calculate_hedge_ratio fresh [1] [1]) \<noteq> Inr (HDict (Fin 0) (Fin 0) (Fin 0)) \<and>
   assemble_response (Fin 0) False (Fin (1 / 2)) (HFloat (Fin 0)) False
     = Inl TypeError_float_subscript"
  by (simp add: calculate_hedge_ratio_def assemble_response_def)

section \<open>Thresholds of the bundle\<close>

text \<open>
  C6. In every bundle that the assembly step of \<open>process_mt5_data\<close> builds,
  \<open>kalmanSignal\<close> is true exactly when \<open>|zScore| > 2.0\<close> and \<open>hedgeSignal\<close> exactly when
  \<open>correlation > 0.7\<close>, both strictly: a z-score of exactly 2.0 gives false. (A \<open>nan\<close>
  compares false, as in Python.)
\<close>

theorem bundle_thresholds:
  assumes "assemble_response z r m hdata s = Inr b"
  shows "(kalmanSignal b \<longleftrightarrow> fgt (fabs (zScore b)) (Fin 2)) \<and>
         (hedgeSignal b \<longleftrightarrow> fgt (correlation b) (Fin (7 / 10))) \<and>
         (\<forall>v. zScore b = Fin v \<longrightarrow> (kalmanSignal b \<longleftrightarrow> 2 < \<bar>v\<bar>)) \<and>
         (\<forall>c. correlation b = Fin c \<longrightarrow> (hedgeSignal b \<longleftrightarrow> 7 / 10 < c)) \<and>
         (zScore b = Fin 2 \<longrightarrow> \<not> kalmanSignal b)"
  using assms by (auto simp: assemble_response_def fgt_def split: hedge_result.splits)

theorem bundle_thresholds_witness:
  "assemble_response (Fin 2) False (Fin (1 / 2)) (HDict (Fin (4 / 5)) (Fin 1) (Fin 1)) True
     = Inr \<lparr>zScore = Fin 2, isDirectionalRegime = False, mlProbability = Fin (1 / 2),
            kalmanSignal = False, hedgeSignal = True, correlation = Fin (4 / 5),
            optimalStopSignal = True\<rparr> \<and>
   \<not> kalmanSignal \<lparr>zScore = Fin 2, isDirectionalRegime = False, mlProbability = Fin (1 / 2),
            kalmanSignal = False, hedgeSignal = True, correlation = Fin (4 / 5),
            optimalStopSignal = True\<rparr> \<and>
   ((7 :: real) / 10 < 4 / 5)"
proof -
  have h: "assemble_response (Fin 2) False (Fin (1 / 2)) (HDict (Fin (4 / 5)) (Fin 1) (Fin 1)) True
     = Inr \<lparr>zScore = Fin 2, isDirectionalRegime = False, mlProbability = Fin (1 / 2),
            kalmanSignal = False, hedgeSignal = True, correlation = Fin (4 / 5),
            optimalStopSignal = True\<rparr>"
    by (simp add: assemble_response_def fgt_def)
  show ?thesis using h bundle_thresholds [OF h] by simp
qed

section \<open>Cold start of the Regime Classifier\<close>

text \<open>
  C9. While the label history has fewer than 100 entries, \<open>detect_regime\<close> returns false
  for every price series. The result does not depend on the hidden-Markov library and
  the engine's state, its model included, is unchanged: the model is neither fitted nor
  asked.
\<close>

theorem regime_cold_start:
  "length (regime_history st) < 100 \<Longrightarrow> detect_regime ext st price_data = (Inr False, st)"
  by (simp add: detect_regime_def)

theorem regime_cold_start_witness:
  "length (regime_history fresh) < 100 \<and>
   detect_regime stub_externals fresh prices30 = (Inr False, fresh)"
proof -
  have h: "length (regime_history fresh) < 100" by (simp add: fresh_def init_def)
  show ?thesis using h regime_cold_start [OF h, of stub_externals prices30] by simp
qed

section \<open>Requests in the wire format\<close>

lemma calculate_zscore_exc:
  "calculate_zscore st z = (Inl e, st') \<Longrightarrow> e = LinAlgError_singular"
  by (auto simp: calculate_zscore_def kf_update_def Let_def
           split: option.splits sum.splits if_splits)

lemma process_body_error:
  assumes "data ''prices'' = Some ps" and "data ''volumes'' = Some vs"
  shows "\<exists>e st'. process_body ext st (Document data) = (Inl e, st')"
proof (cases "ps = []")
  case True
  then show ?thesis using assms by (simp add: process_body_def)
next
  case False
  obtain i n k where e: "np_column_stack3 (map Fin (last20 ps)) (map Fin (last20 vs))
      (np_diff (map Fin (last20 ps))) = Inl (ValueError_concat 0 i n k)"
    using column_stack_fails [OF False] by blast
  show ?thesis using assms False e
    by (auto simp: process_body_def split: prod.splits sum.splits)
qed

lemma process_body_empty_prices:
  assumes "data ''prices'' = Some []" and "data ''volumes'' = Some vs"
  shows "process_body ext st (Document data) = (Inl (IndexError_last 0), st)"
  using assms by (simp add: process_body_def)

text \<open>On an engine with no filter and a cold classifier, the exception is the one of
  the stacking, with the sizes of the windows.\<close>

lemma process_body_stacking:
  assumes "data ''prices'' = Some ps" and "data ''volumes'' = Some vs" and "ps \<noteq> []"
      and "kalman_filter st = None" and "length (regime_history st) < 100"
  shows "process_body ext st (Document data) =
           (Inl (if length (last20 vs) \<noteq> length (last20 ps)
                 then ValueError_concat 0 1 (length (last20 ps)) (length (last20 vs))
                 else ValueError_concat 0 2 (length (last20 ps)) (length (last20 ps) - 1)), st)"
proof -
  have z: "calculate_zscore st (last ps) = (Inr (Fin 0), st)"
    using assms(4) by (simp add: calculate_zscore_def)
  have d: "detect_regime ext st ps = (Inr False, st)"
    by (rule detect_regime_cold) (rule assms(5))
  have "length (last20 ps) - 1 \<noteq> length (last20 ps)"
    using last20_nonempty [OF assms(3)] by (cases "last20 ps") simp_all
  then have s: "np_column_stack3 (map Fin (last20 ps)) (map Fin (last20 vs))
                  (np_diff (map Fin (last20 ps))) =
        Inl (if length (last20 vs) \<noteq> length (last20 ps)
             then ValueError_concat 0 1 (length (last20 ps)) (length (last20 vs))
             else ValueError_concat 0 2 (length (last20 ps)) (length (last20 ps) - 1))"
    by (simp add: np_column_stack3_def length_np_diff)
  show ?thesis using assms(1-3) by (simp add: process_body_def z d s)
qed

text \<open>
  C2. For every request whose \<open>prices\<close> and \<open>volumes\<close> are one-dimensional arrays of
  numbers, in every state of the engine and whatever the libraries do,
  \<open>process_mt5_data\<close> returns the error descriptor and never a bundle. With an empty
  \<open>prices\<close> the error is the \<open>IndexError\<close> of reading the latest price; otherwise, on an
  engine with no filter and a cold classifier, it is the \<open>ValueError\<close> of stacking
  windows of \<open>n\<close>, \<open>n\<close> (or another number of volumes) and \<open>n - 1\<close> entries.
\<close>

theorem one_dimensional_request_is_refused:
  assumes "data ''prices'' = Some ps" and "data ''volumes'' = Some vs"
  shows "(\<exists>e st'. process_mt5_data ext st (Document data) = (ErrorResponse (str_exc e), st')) \<and>
         (\<forall>b. fst (process_mt5_data ext st (Document data)) \<noteq> Bundle b) \<and>
         (ps = [] \<longrightarrow>
            process_mt5_data ext st (Document data) =
              (ErrorResponse ''index -1 is out of bounds for axis 0 with size 0'', st)) \<and>
         (ps \<noteq> [] \<longrightarrow> kalman_filter st = None \<longrightarrow> length (regime_history st) < 100 \<longrightarrow>
            process_mt5_data ext st (Document data) =
              (ErrorResponse (str_exc
                 (if length (last20 vs) \<noteq> length (last20 ps)
                  then ValueError_concat 0 1 (length (last20 ps)) (length (last20 vs))
                  else ValueError_concat 0 2 (length (last20 ps)) (length (last20 ps) - 1))), st))"
proof -
  obtain e st' where b: "process_body ext st (Document data) = (Inl e, st')"
    using process_body_error [OF assms] by blast
  have 1: "process_mt5_data ext st (Document data) = (ErrorResponse (str_exc e), st')"
    by (simp add: process_mt5_data_def b)
  have 3: "process_mt5_data ext st (Document data) =
             (ErrorResponse ''index -1 is out of bounds for axis 0 with size 0'', st)"
    if "ps = []"
    using process_body_empty_prices [of data vs ext st] assms that
    by (simp add: process_mt5_data_def show_nat_digits)
  have 4: "process_mt5_data ext st (Document data) =
              (ErrorResponse (str_exc
                 (if length (last20 vs) \<noteq> length (last20 ps)
                  then ValueError_concat 0 1 (length (last20 ps)) (length (last20 vs))
                  else ValueError_concat 0 2 (length (last20 ps)) (length (last20 ps) - 1))), st)"
    if "ps \<noteq> []" "kalman_filter st = None" "length (regime_history st) < 100"
    using process_body_stacking [OF assms that, of ext]
    by (simp only: process_mt5_data_def) simp
  show ?thesis
  proof (intro conjI impI)
    show "\<exists>e st'. process_mt5_data ext st (Document data) = (ErrorResponse (str_exc e), st')"
      using 1 by blast
    show "\<forall>b. fst (process_mt5_data ext st (Document data)) \<noteq> Bundle b"
      using 1 by simp
  qed (use 3 4 in blast)+
qed

theorem one_dimensional_request_is_refused_witness:
  "process_mt5_data stub_externals fresh (Document empty_data) =
     (ErrorResponse ''index -1 is out of bounds for axis 0 with size 0'', fresh) \<and>
   process_mt5_data stub_externals fresh (Document short_data) =
     (ErrorResponse
        (''all the input array dimensions except for the concatenation axis must match exactly, ''
         @ ''but along dimension 0, the array at index 0 has size 2 and the array at index 2 has size 1''),
      fresh)"
proof -
  have p0: "empty_data ''prices'' = Some []" by (simp add: empty_data_def)
  have v0: "empty_data ''volumes'' = Some []" by (simp add: empty_data_def)
  have p1: "short_data ''prices'' = Some [5, 6]" by (simp add: short_data_def)
  have v1: "short_data ''volumes'' = Some [1, 1]" by (simp add: short_data_def)
  have k: "kalman_filter fresh = None" "length (regime_history fresh) < 100"
    by (simp_all add: fresh_def init_def)
  have l: "last20 [5, 6 :: real] = [5, 6]" "last20 [1, 1 :: real] = [1, 1]"
    by (simp_all add: last20_def)
  show ?thesis
    using one_dimensional_request_is_refused [OF p0 v0, of stub_externals fresh]
          one_dimensional_request_is_refused [OF p1 v1, of stub_externals fresh] k
    by (simp add: l show_nat_digits)
qed

section \<open>A request on a cold engine\<close>

text \<open>With a cold Regime Classifier the libraries are not called: the history and the
  model are left as they are, and an exception is one of the engine's own.\<close>

lemma process_body_cold:
  assumes "length (regime_history st) < 100"
  shows "regime_history (snd (process_body ext st req)) = regime_history st \<and>
         hmm_model (snd (process_body ext st req)) = hmm_model st \<and>
         (\<forall>e. fst (process_body ext st req) = Inl e \<longrightarrow> (\<forall>m. e \<noteq> External m))"
proof (cases req)
  case (Malformed m l c p)
  then show ?thesis by (simp add: process_body_def)
next
  case (Document data)
  show ?thesis
  proof (cases "data ''prices''")
    case None
    then show ?thesis using Document by (simp add: process_body_def)
  next
    case (Some ps)
    note ps = this
    show ?thesis
    proof (cases "data ''volumes''")
      case None
      then show ?thesis using Document ps by (simp add: process_body_def)
    next
      case (Some vs)
      show ?thesis
      proof (cases "ps = []")
        case True
        then show ?thesis using Document ps Some by (simp add: process_body_def)
      next
        case False
        obtain i n k where e: "np_column_stack3 (map Fin (last20 ps)) (map Fin (last20 vs))
            (np_diff (map Fin (last20 ps))) = Inl (ValueError_concat 0 i n k)"
          using column_stack_fails [OF False] by blast
        obtain r st1 where z: "calculate_zscore st (last ps) = (r, st1)"
          by (cases "calculate_zscore st (last ps)")
        have h1: "regime_history st1 = regime_history st" "hmm_model st1 = hmm_model st"
          using calculate_zscore_frame [of st "last ps"] z by simp_all
        have d: "detect_regime ext st1 ps = (Inr False, st1)"
          by (rule detect_regime_cold) (simp add: h1 assms)
        show ?thesis
        proof (cases r)
          case (Inl x)
          then have "x = LinAlgError_singular" using z calculate_zscore_exc by blast
          then show ?thesis using Document ps Some False z h1 Inl
            by (simp add: process_body_def)
        next
          case (Inr zs)
          then show ?thesis using Document ps Some False e z h1 d
            by (simp add: process_body_def)
        qed
      qed
    qed
  qed
qed

lemma process_mt5_data_snd: "snd (process_mt5_data ext st req) = snd (process_body ext st req)"
  by (simp add: process_mt5_data_def split: prod.splits sum.splits)

text \<open>The history is empty and no model is set in every reachable state.\<close>

lemma reachable_cold:
  "reachable ext p0 st \<Longrightarrow> regime_history st = [] \<and> hmm_model st = None"
proof (induction rule: reachable.induct)
  case r_init
  show ?case by (simp add: init_def)
next
  case (r_initialize_kalman_filter st x P)
  then show ?case by (simp add: initialize_kalman_filter_def split: prod.splits)
next
  case (r_calculate_zscore st spread)
  then show ?case by (simp add: calculate_zscore_frame)
next
  case (r_detect_regime st price_data)
  then show ?case by (simp add: detect_regime_cold)
next
  case (r_calculate_hedge_ratio st pair1 pair2)
  then show ?case by (simp add: calculate_hedge_ratio_frame)
next
  case (r_process_mt5_data st req)
  then have "length (regime_history st) < 100" by simp
  from process_body_cold [OF this, of ext req] r_process_mt5_data.IH
  show ?case by (simp add: process_mt5_data_snd)
next
  case (r_calculate_pca_signals st p)
  then show ?case by simp
next
  case (r_train_classifier st rf)
  then show ?case by simp
qed

lemma reachable_fresh: "reachable stub_externals () fresh"
  unfolding fresh_def by (rule r_init)

section \<open>The regime history never grows\<close>

text \<open>
  C10. In every state reachable from the constructor by the engine's operations the
  regime label history is empty and no hidden-Markov model has been set, so
  \<open>detect_regime\<close> returns false, leaving the state as it is, whatever the prices.
\<close>

theorem regime_history_stays_empty:
  assumes "reachable ext p0 st"
  shows "regime_history st = [] \<and> hmm_model st = None \<and>
         detect_regime ext st price_data = (Inr False, st)"
proof -
  have e: "regime_history st = []" "hmm_model st = None"
    using reachable_cold [OF assms] by simp_all
  then have "length (regime_history st) < 100" by simp
  then show ?thesis using e detect_regime_cold by blast
qed

theorem regime_history_stays_empty_witness:
  "reachable stub_externals () (snd (calculate_hedge_ratio filter36 up3 down3)) \<and>
   regime_history (snd (calculate_hedge_ratio filter36 up3 down3)) = [] \<and>
   hmm_model (snd (calculate_hedge_ratio filter36 up3 down3)) = None \<and>
   fst (detect_regime stub_externals (snd (calculate_hedge_ratio filter36 up3 down3)) prices30)
     = Inr False"
proof -
  have "reachable stub_externals () filter36"
    unfolding filter36_def by (rule r_initialize_kalman_filter) (rule reachable_fresh)
  then have r: "reachable stub_externals () (snd (calculate_hedge_ratio filter36 up3 down3))"
    by (rule r_calculate_hedge_ratio)
  show ?thesis using r regime_history_stays_empty [OF r, of prices30] by simp
qed

section \<open>The z-score of the State Estimator\<close>

lemma sqrt_36: "sqrt 36 = 6"
  by (rule real_sqrt_unique) (simp_all add: power2_eq_square)

lemma sqrt_36_361: "sqrt (36 / 361) = 6 / 19"
  by (rule real_sqrt_unique) (simp_all add: power2_eq_square)

lemma kalman_filter_filter36: "kalman_filter filter36 = Some kalman36"
  by (simp add: filter36_def kalman36_def initialize_kalman_filter_def)

lemma kf_update_kalman36:
  "kf_update (kf_predict kalman36) 6 =
     Inr \<lparr>kx0 = 2160 / 361, kx1 = 0, kP00 = 36 / 361, kP01 = 0, kP10 = 0, kP11 = 101 / 100\<rparr>"
  by (simp add: kf_update_def kf_predict_def kalman36_def kf_R_def kf_Q_def Let_def)

lemma calculate_zscore_filter36: "fst (calculate_zscore filter36 6) = Inr (Fin (1 / 19))"
  by (simp add: calculate_zscore_def kalman_filter_filter36 kf_update_kalman36 sqrt_36_361
                fsub_def Let_def)

lemma spec_zscore_kalman36: "spec_zscore kalman36 6 = Fin 1"
  by (simp add: spec_zscore_def kalman36_def kf_predict_def kf_Q_def fsub_def sqrt_36 Let_def)

text \<open>The level and the variance after the update step, in terms of the belief before
  the predict step: the gain is \<open>P / (P + R)\<close> for the predicted variance \<open>P\<close>.\<close>

lemma kf_update_level:
  assumes "kf_update (kf_predict k) z = Inr ku"
  shows "kx0 ku = kx0 k + (kP00 k + kf_Q) / (kP00 k + kf_Q + kf_R) * (z - kx0 k)"
  using assms by (auto simp: kf_update_def kf_predict_def Let_def split: if_splits)

lemma kf_update_variance:
  assumes "kf_update (kf_predict k) z = Inr ku"
  shows "kP00 ku = kf_R * (kP00 k + kf_Q) / (kP00 k + kf_Q + kf_R)"
proof -
  define S where "S = kP00 k + kf_Q + kf_R"
  define P where "P = kP00 k + kf_Q"
  have S: "S \<noteq> 0"
    using assms by (auto simp: S_def kf_update_def kf_predict_def Let_def split: if_splits)
  have "kP00 ku = (1 - P / S) * P * (1 - P / S) + P / S * kf_R * (P / S)"
    using assms
    by (auto simp: S_def P_def kf_update_def kf_predict_def Let_def split: if_splits)
  also have "1 - P / S = kf_R / S" using S by (simp add: S_def P_def field_simps)
  also have "kf_R / S * P * (kf_R / S) + P / S * kf_R * (P / S) = kf_R * P * (kf_R + P) / (S * S)"
    using S by (simp add: field_simps)
  also have "kf_R + P = S" by (simp add: S_def P_def)
  also have "kf_R * P * S / (S * S) = kf_R * P / S" using S by simp
  finally show ?thesis by (simp add: S_def P_def)
qed

text \<open>
  C3. The claim is that the z-score of an initialised State Estimator is
  \<open>(observation - predicted_level) / sqrt(predicted_variance)\<close>, level and variance
  taken between the predict and the update step. The code reads level and variance
  after the update step. For the filter at level 0 with variance 35.99 and the
  observation 6, the claimed value is \<open>6 / sqrt 36 = 1\<close>; the code returns \<open>1 / 19\<close>.
\<close>

theorem zscore_is_not_from_the_prediction:
  "kalman_filter filter36 = Some kalman36 \<and>
   fst (calculate_zscore filter36 6) = Inr (Fin (1 / 19)) \<and>
   spec_zscore kalman36 6 = Fin 1 \<and>
   fst (calculate_zscore filter36 6) \<noteq> Inr (spec_zscore kalman36 6)"
  by (simp add: kalman_filter_filter36 calculate_zscore_filter36 spec_zscore_kalman36)

text \<open>
  C3, amended. When the update step succeeds, the z-score is
  \<open>(observation - level) / sqrt(variance)\<close> for the level and the variance of the filter
  after the update step has blended the observation in: 0.0 when that variance is zero,
  \<open>nan\<close> when it is negative. The filter is left in the updated belief, whose level is
  the predicted level moved towards the observation by the gain and whose variance is
  \<open>R P / (P + R)\<close> for the predicted variance \<open>P\<close>.
\<close>

theorem zscore_is_from_the_updated_belief:
  assumes "kalman_filter st = Some k" and "kf_update (kf_predict k) z = Inr ku"
  shows "calculate_zscore st z =
           (Inr (if kP00 ku < 0 then NaN
                 else if kP00 ku = 0 then Fin 0
                 else Fin ((z - kx0 ku) / sqrt (kP00 ku))),
            st\<lparr>kalman_filter := Some ku\<rparr>) \<and>
         kx0 ku = kx0 k + (kP00 k + kf_Q) / (kP00 k + kf_Q + kf_R) * (z - kx0 k) \<and>
         kP00 ku = kf_R * (kP00 k + kf_Q) / (kP00 k + kf_Q + kf_R)"
proof -
  have "calculate_zscore st z =
           (Inr (if kP00 ku < 0 then NaN
                 else if kP00 ku = 0 then Fin 0
                 else Fin ((z - kx0 ku) / sqrt (kP00 ku))),
            st\<lparr>kalman_filter := Some ku\<rparr>)"
    using assms by (simp add: calculate_zscore_def Let_def fsub_def)
  then show ?thesis
    using kf_update_level [OF assms(2)] kf_update_variance [OF assms(2)] by simp
qed

theorem zscore_is_from_the_updated_belief_witness:
  "kalman_filter filter36 = Some kalman36 \<and>
   kf_update (kf_predict kalman36) 6 =
     Inr \<lparr>kx0 = 2160 / 361, kx1 = 0, kP00 = 36 / 361, kP01 = 0, kP10 = 0, kP11 = 101 / 100\<rparr> \<and>
   fst (calculate_zscore filter36 6) = Inr (Fin ((6 - 2160 / 361) / (6 / 19)))"
  using zscore_is_from_the_updated_belief [OF kalman_filter_filter36 kf_update_kalman36]
        kalman_filter_filter36 kf_update_kalman36
  by (simp add: sqrt_36_361)

section \<open>The guards of the State Estimator\<close>

lemma kalman_filter_filter_flat: "kalman_filter filter_flat = Some kalman_flat"
  by (simp add: filter_flat_def kalman_flat_def initialize_kalman_filter_def)

lemma kf_update_kalman_flat:
  "kf_update (kf_predict kalman_flat) 3 =
     Inr \<lparr>kx0 = 1, kx1 = 0, kP00 = 0, kP01 = 0, kP10 = 0, kP11 = 101 / 100\<rparr>"
  by (simp add: kf_update_def kf_predict_def kalman_flat_def kf_R_def kf_Q_def Let_def)

text \<open>
  C8. Before \<open>initialize_kalman_filter\<close> has been called, \<open>calculate_zscore\<close> returns
  exactly 0.0, raises nothing and leaves the engine as it is. On an initialised filter,
  when the variance whose square root is the denominator is exactly zero, the result is
  0.0 and no division takes place; that variance is zero whenever the predicted variance
  is.
\<close>

theorem zscore_guards:
  "(kalman_filter st = None \<longrightarrow> calculate_zscore st z = (Inr (Fin 0), st)) \<and>
   (kalman_filter st = Some k \<longrightarrow> kf_update (kf_predict k) z = Inr ku \<longrightarrow>
      (kP00 ku = 0 \<or> kP00 (kf_predict k) = 0) \<longrightarrow>
      fst (calculate_zscore st z) = Inr (Fin 0))"
proof -
  have "kP00 ku = 0" if "kf_update (kf_predict k) z = Inr ku" "kP00 (kf_predict k) = 0"
    using kf_update_variance [OF that(1)] that(2) by (simp add: kf_predict_def)
  then show ?thesis by (auto simp: calculate_zscore_def Let_def)
qed

theorem zscore_guards_witness:
  "kalman_filter fresh = None \<and>
   calculate_zscore fresh 5 = (Inr (Fin 0), fresh) \<and>
   kalman_filter filter_flat = Some kalman_flat \<and>
   kP00 (kf_predict kalman_flat) = 0 \<and>
   kP00 \<lparr>kx0 = 1, kx1 = 0, kP00 = 0, kP01 = 0, kP10 = 0, kP11 = 101 / 100\<rparr> = 0 \<and>
   fst (calculate_zscore filter_flat 3) = Inr (Fin 0)"
proof -
  have n: "kalman_filter fresh = None" by (simp add: fresh_def init_def)
  have p: "kP00 (kf_predict kalman_flat) = 0"
    by (simp add: kf_predict_def kalman_flat_def kf_Q_def)
  show ?thesis
    using n p kalman_filter_filter_flat kf_update_kalman_flat
      zscore_guards [of fresh 5 kalman_flat
        "\<lparr>kx0 = 1, kx1 = 0, kP00 = 0, kP01 = 0, kP10 = 0, kP11 = 101 / 100\<rparr>"]
      zscore_guards [of filter_flat 3 kalman_flat
        "\<lparr>kx0 = 1, kx1 = 0, kP00 = 0, kP01 = 0, kP10 = 0, kP11 = 101 / 100\<rparr>"]
    by simp
qed

section \<open>The smoothed correlation matrix\<close>

lemma hedge_first:
  assumes "correlation_matrix st = None"
      and "calculate_hedge_ratio st a b = (Inr (HDict r be h), st1)"
  shows "correlation_matrix st1 = Some ((Fin 1, r), (r, Fin 1))"
  using assms
  by (auto simp: calculate_hedge_ratio_def Let_def split: if_splits sum.splits prod.splits)

lemma hedge_next:
  assumes "correlation_matrix st = Some ((d0, old), (old', d1))"
      and "calculate_hedge_ratio st a b = (Inr (HDict r be h), st1)"
  shows "correlation_matrix st1 =
           Some ((fadd (fmul (Fin (95 / 100)) d0) (fmul (Fin (5 / 100)) (Fin 1)),
                  fadd (fmul (Fin (95 / 100)) old) (fmul (Fin (5 / 100)) r)),
                 (fadd (fmul (Fin (95 / 100)) old') (fmul (Fin (5 / 100)) r),
                  fadd (fmul (Fin (95 / 100)) d1) (fmul (Fin (5 / 100)) (Fin 1))))"
  using assms
  by (auto simp: calculate_hedge_ratio_def Let_def mat_add_def mat_scale_def
           split: if_splits sum.splits prod.splits)

lemma hedge_correlation:
  assumes "calculate_hedge_ratio st a b = (Inr (HDict r be h), st1)"
  shows "\<exists>r00 row1. np_corrcoef (map Fin a) (map Fin b) = Inr ((r00, r), row1)"
  using assms
  by (auto simp: calculate_hedge_ratio_def Let_def split: if_splits sum.splits prod.splits)

lemma mean_up3: "np_mean (map Fin up3) = Fin 2" "np_mean (map Fin down3) = Fin 2"
  by (simp_all add: np_mean_def fsum_def up3_def down3_def)

lemma cov_up3:
  "cov_entry (map Fin up3) (map Fin up3) = Fin 1"
  "cov_entry (map Fin up3) (map Fin down3) = Fin (- 1)"
  "cov_entry (map Fin down3) (map Fin up3) = Fin (- 1)"
  "cov_entry (map Fin down3) (map Fin down3) = Fin 1"
  by (simp_all add: cov_entry_def mean_up3 Let_def)
     (simp_all add: up3_def down3_def fsum_def fsub_def)

lemma corr_up3:
  "np_corrcoef (map Fin up3) (map Fin up3) = Inr ((Fin 1, Fin 1), (Fin 1, Fin 1))"
  "np_corrcoef (map Fin up3) (map Fin down3) = Inr ((Fin 1, Fin (- 1)), (Fin (- 1), Fin 1))"
  by (simp_all add: np_corrcoef_def np_cov_def cov_up3 Let_def)
     (simp_all add: up3_def down3_def)

lemma var_up3: "np_var (map Fin up3) = Fin (2 / 3)" "np_var (map Fin down3) = Fin (2 / 3)"
  by (simp_all add: np_var_def mean_up3 Let_def)
     (simp_all add: np_mean_def up3_def down3_def fsum_def fsub_def)

lemma hedge_up3:
  "calculate_hedge_ratio st up3 up3 =
     (Inr (HDict (Fin 1) (Fin (3 / 2)) (Fin (3 / 2))),
      st\<lparr>correlation_matrix :=
           (case correlation_matrix st of
              None \<Rightarrow> Some ((Fin 1, Fin 1), (Fin 1, Fin 1))
            | Some old \<Rightarrow> Some (mat_add (mat_scale (95 / 100) old)
                                (mat_scale (5 / 100) ((Fin 1, Fin 1), (Fin 1, Fin 1)))))\<rparr>)"
  by (simp add: calculate_hedge_ratio_def corr_up3 var_up3 np_std_def np_cov_def cov_up3 Let_def)
     (simp add: up3_def)

lemma hedge_up3_down3:
  "calculate_hedge_ratio st up3 down3 =
     (Inr (HDict (Fin (- 1)) (Fin (- (3 / 2))) (Fin (- (3 / 2)))),
      st\<lparr>correlation_matrix :=
           (case correlation_matrix st of
              None \<Rightarrow> Some ((Fin 1, Fin (- 1)), (Fin (- 1), Fin 1))
            | Some old \<Rightarrow> Some (mat_add (mat_scale (95 / 100) old)
                                (mat_scale (5 / 100) ((Fin 1, Fin (- 1)), (Fin (- 1), Fin 1)))))\<rparr>)"
  by (simp add: calculate_hedge_ratio_def corr_up3 var_up3 np_std_def np_cov_def cov_up3 Let_def)
     (simp add: up3_def down3_def)

text \<open>
  C5. On the first call of the Hedge Estimator that gets past its guard, observing the
  Pearson correlation \<open>r\<close> of the two series, the correlation matrix is set to
  \<open>[[1, r], [r, 1]]\<close>. On the next such call, observing \<open>r2\<close>, its (0,1) entry becomes
  \<open>0.95 r + 0.05 r2\<close> (and the diagonal stays 1 for finite correlations).
\<close>

theorem correlation_matrix_smoothing:
  assumes "correlation_matrix st = None"
      and "calculate_hedge_ratio st a b = (Inr (HDict r be h), st1)"
      and "calculate_hedge_ratio st1 a2 b2 = (Inr (HDict r2 be2 h2), st2)"
  shows "(\<exists>r00 row1. np_corrcoef (map Fin a) (map Fin b) = Inr ((r00, r), row1)) \<and>
         correlation_matrix st1 = Some ((Fin 1, r), (r, Fin 1)) \<and>
         (\<exists>d0 m10 d1. correlation_matrix st2 =
            Some ((d0, fadd (fmul (Fin (95 / 100)) r) (fmul (Fin (5 / 100)) r2)), (m10, d1))) \<and>
         (\<forall>x y. r = Fin x \<longrightarrow> r2 = Fin y \<longrightarrow>
            correlation_matrix st2 =
              Some ((Fin 1, Fin (95 / 100 * x + 5 / 100 * y)),
                    (Fin (95 / 100 * x + 5 / 100 * y), Fin 1)))"
proof -
  have 1: "correlation_matrix st1 = Some ((Fin 1, r), (r, Fin 1))"
    by (rule hedge_first [OF assms(1,2)])
  have 2: "correlation_matrix st2 =
           Some ((fadd (fmul (Fin (95 / 100)) (Fin 1)) (fmul (Fin (5 / 100)) (Fin 1)),
                  fadd (fmul (Fin (95 / 100)) r) (fmul (Fin (5 / 100)) r2)),
                 (fadd (fmul (Fin (95 / 100)) r) (fmul (Fin (5 / 100)) r2),
                  fadd (fmul (Fin (95 / 100)) (Fin 1)) (fmul (Fin (5 / 100)) (Fin 1))))"
    by (rule hedge_next [OF 1 assms(3)])
  show ?thesis using 1 2 hedge_correlation [OF assms(2)] by simp
qed

theorem correlation_matrix_smoothing_witness:
  "correlation_matrix fresh = None \<and>
   correlation_matrix (snd (calculate_hedge_ratio fresh up3 up3))
     = Some ((Fin 1, Fin 1), (Fin 1, Fin 1)) \<and>
   correlation_matrix
       (snd (calculate_hedge_ratio (snd (calculate_hedge_ratio fresh up3 up3)) up3 down3))
     = Some ((Fin 1, Fin (9 / 10)), (Fin (9 / 10), Fin 1))"
proof -
  have n: "correlation_matrix fresh = None" by (simp add: fresh_def init_def)
  obtain st1 where a: "calculate_hedge_ratio fresh up3 up3
      = (Inr (HDict (Fin 1) (Fin (3 / 2)) (Fin (3 / 2))), st1)"
    by (simp add: hedge_up3)
  obtain st2 where b: "calculate_hedge_ratio st1 up3 down3
      = (Inr (HDict (Fin (- 1)) (Fin (- (3 / 2))) (Fin (- (3 / 2)))), st2)"
    by (simp add: hedge_up3_down3)
  show ?thesis using n a b correlation_matrix_smoothing [OF n a b] by simp
qed

end
